theory Spec2Isabelle
  imports Main
begin

section \<open>Gangway: the handlers of cmd/gangway/handlers.go\<close>

text \<open>
  A shallow embedding of the HTTP handlers of Gangway: the OAuth2 callback, the
  credential assembler \<open>generateInfo\<close> and the kubeconfig generator. Every
  Go function becomes a HOL function of the same name. What a handler mutates (the
  response writer, the cookie-backed session partitions, the calls made to the token
  endpoint) is threaded through as an explicit state; every early \<open>return\<close> of the
  source is a branch of the model. Calls to \<open>log\<close> have no effect on any of these
  and are left out.
\<close>

subsection \<open>Dynamically typed values\<close>

text \<open>
  A value of Go's \<open>interface{}\<close>, as far as the handlers distinguish: \<open>nil\<close>, a
  string, or a value of some other type. Session values, token extras and JWT claims
  are maps to such values; indexing a Go map at a missing key yields \<open>nil\<close>.
\<close>

datatype dyn = Nil | Str string | Other nat

type_synonym Values = "string \<rightharpoonup> dyn"

definition index :: "Values \<Rightarrow> string \<Rightarrow> dyn" where
  "index m k = (case m k of None \<Rightarrow> Nil | Some v \<Rightarrow> v)"

text \<open>The type assertion \<open>v.(string)\<close>; \<open>None\<close> is \<open>ok == false\<close>.\<close>

fun as_string :: "dyn \<Rightarrow> string option" where
  "as_string (Str x) = Some x"
| "as_string Nil = None"
| "as_string (Other n) = None"

text \<open>\<open>strings.Join\<close>.\<close>

fun Join :: "string list \<Rightarrow> string \<Rightarrow> string" where
  "Join [] sep = []"
| "Join [x] sep = x"
| "Join (x # y # ys) sep = x @ sep @ Join (y # ys) sep"

subsection \<open>The client-configuration document (k8s.io/client-go, clientcmd/api/v1)\<close>

text \<open>
  The library types, with the fields that handlers.go reads or writes. Go's \<open>[]byte\<close>
  and \<open>string\<close> are both byte sequences, so the conversions \<open>[]byte(s)\<close> and
  \<open>string(b)\<close> are the identity on \<open>string\<close>.
\<close>

record Cluster =
  Server :: string
  CertificateAuthorityData :: string

record NamedCluster =
  Name :: string
  Cluster :: Cluster

record Context =
  Cluster :: string
  AuthInfo :: string

record NamedContext =
  Name :: string
  Context :: Context

record AuthProviderConfig =
  Name :: string
  Config :: "string \<rightharpoonup> string"

record AuthInfo =
  AuthProvider :: "AuthProviderConfig option"

record NamedAuthInfo =
  Name :: string
  AuthInfo :: AuthInfo

record Config =
  Kind :: string
  APIVersion :: string
  CurrentContext :: string
  Clusters :: "NamedCluster list"
  Contexts :: "NamedContext list"
  AuthInfos :: "NamedAuthInfo list"

subsection \<open>Static configuration and the exchanged token\<close>

text \<open>
  The global \<open>cfg\<close> (package internal/config, not part of handlers.go): the fields
  that the modelled handlers read.
\<close>

record config =
  ClusterCAPath :: string
  UsernameClaim :: string
  EmailClaim :: string
  ClusterName :: string
  ClientID :: string
  ClientSecret :: string
  APIServerURL :: string
  HTTPPath :: string
  Clusters :: "NamedCluster list"

text \<open>
  \<open>oauth2.Token\<close>: the refresh token is a string field, the ID token is one of the
  extra fields of the provider's response, read with \<open>Extra\<close>.
\<close>

record Token =
  RefreshToken :: string
  raw :: "string \<rightharpoonup> dyn"

definition Extra :: "Token \<Rightarrow> string \<Rightarrow> dyn" where
  "Extra t key = index (raw t) key"

subsection \<open>The user record\<close>

text \<open>
  \<open>userInfo\<close> as declared in handlers.go, and one more field: \<open>generateKubeConfig\<close>
  reads \<open>cfg.Email\<close>, a field that the struct declaration does not list and that the
  struct literal of \<open>generateInfo\<close> never sets. It is kept as a field of the record,
  so that the function can be stated at all; a record built by \<open>generateInfo\<close> holds
  Go's zero value there, the empty string.
\<close>

record userInfo =
  ClusterName :: string
  Username :: string
  KubeCfgUser :: string
  IDToken :: string
  RefreshToken :: string
  ClientID :: string
  ClientSecret :: string
  IssuerURL :: string
  APIServerURL :: string
  ClusterCA :: string
  HTTPPath :: string
  Clusters :: "NamedCluster list"
  Email :: string

subsection \<open>generateKubeConfig\<close>

text \<open>
  The body of the \<open>range\<close> loop. \<open>namedCluster\<close> is the loop variable: a copy of the
  slice element. The body appends a context and then assigns the CA data to the copy;
  the function returns both, the new \<open>contexts\<close> and the loop variable as the body
  leaves it.
\<close>

definition loop_body ::
  "userInfo \<Rightarrow> NamedContext list \<Rightarrow> NamedCluster \<Rightarrow> NamedContext list \<times> NamedCluster" where
  "loop_body cfg contexts namedCluster =
     (let contexts' = contexts @
            [\<lparr>NamedContext.Name = NamedCluster.Name namedCluster,
              NamedContext.Context =
                \<lparr>Context.Cluster = NamedCluster.Name namedCluster,
                 Context.AuthInfo = Email cfg\<rparr>\<rparr>];
          namedCluster' = namedCluster
            \<lparr>NamedCluster.Cluster :=
               (NamedCluster.Cluster namedCluster)\<lparr>CertificateAuthorityData := ClusterCA cfg\<rparr>\<rparr>
      in (contexts', namedCluster'))"

text \<open>
  \<open>for _, namedCluster := range cfg.Clusters\<close>: each iteration copies the next element
  into the loop variable and runs the body. The loop variable is overwritten by the next
  iteration and dropped at the end; the slice itself is never written.
\<close>

fun range_loop :: "userInfo \<Rightarrow> NamedCluster list \<Rightarrow> NamedContext list \<Rightarrow> NamedContext list" where
  "range_loop cfg [] contexts = contexts"
| "range_loop cfg (elem # rest) contexts =
     (case loop_body cfg contexts elem of
        (contexts', namedCluster') \<Rightarrow> range_loop cfg rest contexts')"

text \<open>
  \<open>generateKubeConfig\<close> takes a pointer: it returns the document and the record as
  the call leaves it (\<open>cfg.Clusters\<close> is assigned the result of \<open>append\<close>).
\<close>

definition generateKubeConfig :: "userInfo \<Rightarrow> Config \<times> userInfo" where
  "generateKubeConfig cfg0 =
     (let cfg = cfg0\<lparr>userInfo.Clusters := userInfo.Clusters cfg0 @
                  [\<lparr>NamedCluster.Name = ClusterName cfg0,
                    NamedCluster.Cluster =
                      \<lparr>Server = APIServerURL cfg0,
                       CertificateAuthorityData = ClusterCA cfg0\<rparr>\<rparr>]\<rparr>;
          contexts = range_loop cfg (userInfo.Clusters cfg) [];
          kcfg = \<lparr>Kind = ''Config'',
                  APIVersion = ''v1'',
                  CurrentContext = ClusterName cfg,
                  Config.Clusters = userInfo.Clusters cfg,
                  Contexts = contexts,
                  AuthInfos =
                    [\<lparr>NamedAuthInfo.Name = KubeCfgUser cfg,
                      NamedAuthInfo.AuthInfo =
                        \<lparr>AuthProvider = Some
                           \<lparr>AuthProviderConfig.Name = ''oidc'',
                            AuthProviderConfig.Config =
                              [''client-id'' \<mapsto> ClientID cfg,
                               ''client-secret'' \<mapsto> ClientSecret cfg,
                               ''id-token'' \<mapsto> IDToken cfg,
                               ''idp-issuer-url'' \<mapsto> IssuerURL cfg,
                               ''refresh-token'' \<mapsto> RefreshToken cfg]\<rparr>\<rparr>\<rparr>]\<rparr>
      in (kcfg, cfg))"

subsection \<open>The response writer (net/http)\<close>

text \<open>
  The status line is fixed by the first \<open>WriteHeader\<close> (a later one is ignored), and
  a \<open>Write\<close> before any \<open>WriteHeader\<close> sends status 200. Headers set after the
  status line has been written are not sent. A redirect is recorded as the
  \<open>Location\<close> header with the URL that the handler passes, and the status; the short
  body that net/http adds to a redirect is not modelled.
\<close>

record ResponseWriter =
  status :: "nat option"
  header :: "(string \<times> string) list"
  body :: string

definition newResponse :: ResponseWriter where
  "newResponse = \<lparr>status = None, header = [], body = []\<rparr>"

definition WriteHeader :: "nat \<Rightarrow> ResponseWriter \<Rightarrow> ResponseWriter" where
  "WriteHeader code rw = (if status rw = None then rw\<lparr>status := Some code\<rparr> else rw)"

definition Write :: "string \<Rightarrow> ResponseWriter \<Rightarrow> ResponseWriter" where
  "Write d rw = (let rw' = WriteHeader 200 rw in rw'\<lparr>body := body rw' @ d\<rparr>)"

definition Header_Set :: "string \<Rightarrow> string \<Rightarrow> ResponseWriter \<Rightarrow> ResponseWriter" where
  "Header_Set k v rw =
     (if status rw = None then rw\<lparr>header := [p \<leftarrow> header rw. fst p \<noteq> k] @ [(k, v)]\<rparr> else rw)"

definition Header_Add :: "string \<Rightarrow> string \<Rightarrow> ResponseWriter \<Rightarrow> ResponseWriter" where
  "Header_Add k v rw = (if status rw = None then rw\<lparr>header := header rw @ [(k, v)]\<rparr> else rw)"

definition Header_Get :: "ResponseWriter \<Rightarrow> string \<Rightarrow> string option" where
  "Header_Get rw k = map_of (header rw) k"

fun StatusText :: "nat \<Rightarrow> string" where
  "StatusText code =
     (if code = 200 then ''OK''
      else if code = 303 then ''See Other''
      else if code = 307 then ''Temporary Redirect''
      else if code = 403 then ''Forbidden''
      else if code = 500 then ''Internal Server Error''
      else [])"

text \<open>\<open>http.Error\<close>: plain-text headers, the status, then the message and a newline.\<close>

definition http_Error :: "string \<Rightarrow> nat \<Rightarrow> ResponseWriter \<Rightarrow> ResponseWriter" where
  "http_Error msg code rw =
     Write (msg @ [CHR 0x0A])
       (WriteHeader code
         (Header_Set ''X-Content-Type-Options'' ''nosniff''
           (Header_Set ''Content-Type'' ''text/plain; charset=utf-8'' rw)))"

definition http_Redirect :: "string \<Rightarrow> nat \<Rightarrow> ResponseWriter \<Rightarrow> ResponseWriter" where
  "http_Redirect url code rw = WriteHeader code (Header_Set ''Location'' url rw)"

text \<open>\<open>r.URL.Query().Get(key)\<close>: the first value of the key, the empty string if none.\<close>

record Request =
  Query :: "(string \<times> string) list"

definition Query_Get :: "Request \<Rightarrow> string \<Rightarrow> string" where
  "Query_Get r key = (case map_of (Query r) key of None \<Rightarrow> [] | Some v \<Rightarrow> v)"

subsection \<open>State and external collaborators\<close>

text \<open>
  What a handler can change: the response, the session partitions that the browser's
  cookies hold (by session name: \<open>gangway\<close>, \<open>gangway_id_token\<close>,
  \<open>gangway_refresh_token\<close>), and the authorization codes sent to the provider's
  token endpoint.
\<close>

record state =
  w :: ResponseWriter
  sessions :: "string \<rightharpoonup> Values"
  exchanged :: "string list"

text \<open>
  The collaborators that handlers.go calls and does not define, as parameters: whether
  the session store fails to read or to save a session, the provider's answer to a code
  exchange, \<open>os.Open\<close> and what \<open>ioutil.ReadAll\<close> returns on an open file (the bytes
  read, and the error that stopped the read, if any), \<open>oidc.ParseToken\<close> and
  \<open>yaml.Marshal\<close>. \<open>Inl\<close> carries the error's message.
\<close>

record world =
  Get_err :: "string \<Rightarrow> string option"
  Save_err :: "string \<Rightarrow> Values \<Rightarrow> string option"
  Exchange :: "string \<Rightarrow> string + Token"
  Open :: "string \<Rightarrow> string + nat"
  Read :: "nat \<Rightarrow> string \<times> string option"
  ParseToken :: "string \<Rightarrow> string \<Rightarrow> string + Values"
  Marshal :: "Config \<Rightarrow> string + string"

text \<open>
  \<open>gangwayUserSession.Session.Get(r, name)\<close>: get-or-create. A session without a
  cookie is new and has no values.
\<close>

definition session_values :: "state \<Rightarrow> string \<Rightarrow> Values" where
  "session_values s name = (case sessions s name of None \<Rightarrow> Map.empty | Some vs \<Rightarrow> vs)"

definition Session_Get :: "world \<Rightarrow> state \<Rightarrow> string \<Rightarrow> string + Values" where
  "Session_Get wd s name =
     (case Get_err wd name of
        Some err \<Rightarrow> Inl err
      | None \<Rightarrow> Inr (session_values s name))"

text \<open>
  The value stored under a key in a partition, as a handler reads it:
  \<open>session.Values[key]\<close>, which is \<open>nil\<close> when the partition or the key is absent.
\<close>

definition stored :: "state \<Rightarrow> string \<Rightarrow> string \<Rightarrow> dyn" where
  "stored s name key = index (session_values s name) key"

text \<open>\<open>session.Save(r, w)\<close>: the values become what the cookie of that name holds.\<close>

definition Session_Save :: "world \<Rightarrow> string \<Rightarrow> Values \<Rightarrow> state \<Rightarrow> string + state" where
  "Session_Save wd name vs s =
     (case Save_err wd name vs of
        Some err \<Rightarrow> Inl err
      | None \<Rightarrow> Inr (s\<lparr>sessions := (sessions s)(name \<mapsto> vs)\<rparr>))"

text \<open>
  Modelled from the spec: \<open>gangwayUserSession.Cleanup\<close> is a method of package
  internal/session, which is not among the sources. The spec has the session store
  support "delete" and says of the clearing that it is unconditional and "idempotent
  -- clearing an already-absent session must not error". So \<open>Cleanup\<close> removes the
  partition, whether it is there or not, and writes nothing to the response.
\<close>

definition Cleanup :: "string \<Rightarrow> state \<Rightarrow> state" where
  "Cleanup name s = s\<lparr>sessions := (sessions s)(name := None)\<rparr>"

text \<open>
  \<open>ioutil.ReadAll(file)\<close>, where \<open>file\<close> is \<open>nil\<close> after a failed \<open>os.Open\<close>: a read
  on a nil file returns no bytes and the error \<open>os.ErrInvalid\<close>.
\<close>

definition ReadAll :: "world \<Rightarrow> nat option \<Rightarrow> string \<times> string option" where
  "ReadAll wd file =
     (case file of None \<Rightarrow> ([], Some ''invalid argument'') | Some fd \<Rightarrow> Read wd fd)"

subsection \<open>loginRequired\<close>

text \<open>
  The wrapper that handlers.go puts in front of a page handler \<open>next\<close>: it redirects
  to the root path prefix, and does not call \<open>next\<close>, when the id-token session
  cannot be read or holds \<open>nil\<close> under \<open>id_token\<close>. The prefix is the result of
  \<open>cfg.GetRootPathPrefix()\<close>, a method of package internal/config that is not part of
  handlers.go; it is taken as the parameter \<open>rootPathPrefix\<close>.
\<close>

definition loginRequired :: "world \<Rightarrow> string \<Rightarrow> (state \<Rightarrow> state) \<Rightarrow> state \<Rightarrow> state" where
  "loginRequired wd rootPathPrefix next_handler s =
     (case Session_Get wd s ''gangway_id_token'' of
        Inl err \<Rightarrow> s\<lparr>w := http_Redirect rootPathPrefix 307 (w s)\<rparr>
      | Inr session \<Rightarrow>
          if index session ''id_token'' = Nil
          then s\<lparr>w := http_Redirect rootPathPrefix 307 (w s)\<rparr>
          else next_handler s)"

subsection \<open>callbackHandler\<close>

definition fail :: "string \<Rightarrow> nat \<Rightarrow> state \<Rightarrow> state" where
  "fail msg code s = s\<lparr>w := http_Error msg code (w s)\<rparr>"

definition callbackHandler :: "world \<Rightarrow> config \<Rightarrow> Request \<Rightarrow> state \<Rightarrow> state" where
  "callbackHandler wd cfg r s =
     (case Session_Get wd s ''gangway'' of
        Inl err \<Rightarrow> fail err 500 s
      | Inr session \<Rightarrow>
     (case Session_Get wd s ''gangway_id_token'' of
        Inl err \<Rightarrow> fail err 500 s
      | Inr sessionIDToken \<Rightarrow>
     (case Session_Get wd s ''gangway_refresh_token'' of
        Inl err \<Rightarrow> fail err 500 s
      | Inr sessionRefreshToken \<Rightarrow>
     (let state = Query_Get r ''state'' in
      if Str state \<noteq> index session ''state'' then fail (StatusText 403) 403 s
      else
     (let code = Query_Get r ''code'';
          s1 = s\<lparr>exchanged := exchanged s @ [code]\<rparr> in
      case Exchange wd code of
        Inl err \<Rightarrow> fail err 500 s1
      | Inr token \<Rightarrow>
     (let sessionIDToken' = sessionIDToken(''id_token'' \<mapsto> Extra token ''id_token'');
          sessionRefreshToken' =
            sessionRefreshToken(''refresh_token'' \<mapsto> Str (Token.RefreshToken token)) in
      case Session_Save wd ''gangway'' session s1 of
        Inl err \<Rightarrow> fail err 500 s1
      | Inr s2 \<Rightarrow>
     (case Session_Save wd ''gangway_id_token'' sessionIDToken' s2 of
        Inl err \<Rightarrow> fail err 500 s2
      | Inr s3 \<Rightarrow>
     (case Session_Save wd ''gangway_refresh_token'' sessionRefreshToken' s3 of
        Inl err \<Rightarrow> fail err 500 s3
      | Inr s4 \<Rightarrow>
          s4\<lparr>w := http_Redirect (config.HTTPPath cfg @ ''/commandline'') 303 (w s4)\<rparr>))))))))"

subsection \<open>generateInfo and kubeConfigHandler\<close>

text \<open>
  The three \<open>Cleanup\<close> calls and the redirect of the unauthenticated branches.
\<close>

definition reset_and_redirect :: "state \<Rightarrow> state" where
  "reset_and_redirect s =
     (let s1 = Cleanup ''gangway'' s;
          s2 = Cleanup ''gangway_id_token'' s1;
          s3 = Cleanup ''gangway_refresh_token'' s2
      in s3\<lparr>w := http_Redirect ''/'' 307 (w s3)\<rparr>)"

definition generateInfo :: "world \<Rightarrow> config \<Rightarrow> state \<Rightarrow> userInfo option \<times> state" where
  "generateInfo wd cfg s =
     (let file = (case Open wd (ClusterCAPath cfg) of Inl err \<Rightarrow> None | Inr fd \<Rightarrow> Some fd);
          caBytes = fst (ReadAll wd file) in
      case Session_Get wd s ''gangway_id_token'' of
        Inl err \<Rightarrow> (None, fail (StatusText 500) 500 s)
      | Inr sessionIDToken \<Rightarrow>
     (case Session_Get wd s ''gangway_refresh_token'' of
        Inl err \<Rightarrow> (None, fail (StatusText 500) 500 s)
      | Inr sessionRefreshToken \<Rightarrow>
     (case as_string (index sessionIDToken ''id_token'') of
        None \<Rightarrow> (None, reset_and_redirect s)
      | Some idToken \<Rightarrow>
     (case as_string (index sessionRefreshToken ''refresh_token'') of
        None \<Rightarrow> (None, reset_and_redirect s)
      | Some refreshToken \<Rightarrow>
     (case ParseToken wd idToken (config.ClientSecret cfg) of
        Inl err \<Rightarrow> (None, fail ''Could not parse JWT'' 500 s)
      | Inr claims \<Rightarrow>
     (case as_string (index claims (UsernameClaim cfg)) of
        None \<Rightarrow> (None, fail ''Could not parse Username claim'' 500 s)
      | Some username \<Rightarrow>
     (let kubeCfgUser = Join [username, config.ClusterName cfg] ''@'' in
      case as_string (index claims ''iss'') of
        None \<Rightarrow> (None, fail ''Could not parse Issuer URL claim'' 500 s)
      | Some issuerURL \<Rightarrow>
          (Some \<lparr>ClusterName = config.ClusterName cfg,
                 Username = username,
                 KubeCfgUser = kubeCfgUser,
                 IDToken = idToken,
                 RefreshToken = refreshToken,
                 ClientID = config.ClientID cfg,
                 ClientSecret = config.ClientSecret cfg,
                 IssuerURL = issuerURL,
                 APIServerURL = config.APIServerURL cfg,
                 ClusterCA = caBytes,
                 HTTPPath = config.HTTPPath cfg,
                 Clusters = config.Clusters cfg,
                 Email = []\<rparr>, s))))))))"

definition kubeConfigHandler :: "world \<Rightarrow> config \<Rightarrow> state \<Rightarrow> state" where
  "kubeConfigHandler wd cfg s =
     (case generateInfo wd cfg s of
        (None, s') \<Rightarrow> s'
      | (Some info, s') \<Rightarrow>
          (case Marshal wd (fst (generateKubeConfig info)) of
             Inl err \<Rightarrow> fail ''Error creating kubeconfig'' 500 s'
           | Inr d \<Rightarrow> s'\<lparr>w := Write d (Header_Add ''Content-Disposition'' ''Attachment'' (w s'))\<rparr>))"

subsection \<open>Concrete inputs\<close>

text \<open>
  A configuration with one additional cluster, \<open>dev\<close>, besides the primary cluster
  \<open>prod\<close>; collaborators that all succeed, and variants in which one of them fails
  or in which the provider's answer has no \<open>id_token\<close>, or a number there;
  the sessions of a browser before login, after \<open>/login\<close> and after a completed
  callback; and the record that \<open>generateInfo\<close> builds for the logged-in user.
\<close>

definition dev_cluster :: NamedCluster where
  "dev_cluster =
     \<lparr>NamedCluster.Name = ''dev'',
      NamedCluster.Cluster = \<lparr>Server = ''https://dev:6443'', CertificateAuthorityData = []\<rparr>\<rparr>"

definition cfg_ex :: config where
  "cfg_ex =
     \<lparr>ClusterCAPath = ''/ca.crt'',
      UsernameClaim = ''sub'',
      EmailClaim = [],
      ClusterName = ''prod'',
      ClientID = ''gangway'',
      ClientSecret = ''secret'',
      APIServerURL = ''https://prod:6443'',
      HTTPPath = ''/gw'',
      Clusters = [dev_cluster]\<rparr>"

definition wd_ok :: world where
  "wd_ok =
     \<lparr>Get_err = (\<lambda>name. None),
      Save_err = (\<lambda>name vs. None),
      Exchange = (\<lambda>code. if code = ''C1''
                     then Inr \<lparr>Token.RefreshToken = ''R'', raw = [''id_token'' \<mapsto> Str ''T'']\<rparr>
                     else Inl ''invalid_grant''),
      Open = (\<lambda>path. if path = ''/ca.crt'' then Inr 3 else Inl ''no such file''),
      Read = (\<lambda>fd. (''PEM'', None)),
      ParseToken = (\<lambda>tok secret. if tok = ''T'' \<and> secret = ''secret''
                     then Inr [''sub'' \<mapsto> Str ''alice'', ''iss'' \<mapsto> Str ''https://idp'']
                     else Inl ''invalid token''),
      Marshal = (\<lambda>k. Inr ''kind: Config'')\<rparr>"

definition wd_unreadable :: world where
  "wd_unreadable =
     wd_ok\<lparr>Get_err := (\<lambda>name. if name = ''gangway_id_token''
                           then Some ''securecookie: the value is not valid'' else None)\<rparr>"

definition wd_save_fails :: world where
  "wd_save_fails =
     wd_ok\<lparr>Save_err := (\<lambda>name vs. if name = ''gangway''
                           then Some ''securecookie: the value is too long'' else None)\<rparr>"

definition wd_no_id_token :: world where
  "wd_no_id_token =
     wd_ok\<lparr>Exchange := (\<lambda>code. Inr \<lparr>Token.RefreshToken = ''R'', raw = Map.empty\<rparr>)\<rparr>"

definition wd_no_id_token_save_fails :: world where
  "wd_no_id_token_save_fails =
     wd_no_id_token\<lparr>Save_err := (\<lambda>name vs. if name = ''gangway_id_token''
                           then Some ''securecookie: the value is too long'' else None)\<rparr>"

definition wd_number_id_token :: world where
  "wd_number_id_token =
     wd_ok\<lparr>Exchange := (\<lambda>code. Inr \<lparr>Token.RefreshToken = ''R'',
                                        raw = [''id_token'' \<mapsto> Other 7]\<rparr>)\<rparr>"

definition wd_ca_missing :: world where
  "wd_ca_missing = wd_ok\<lparr>Open := (\<lambda>path. Inl ''no such file'')\<rparr>"

definition wd_ca_partial :: world where
  "wd_ca_partial = wd_ok\<lparr>Read := (\<lambda>fd. (''-----BEGIN'', Some ''input/output error''))\<rparr>"

definition wd_marshal_fails :: world where
  "wd_marshal_fails = wd_ok\<lparr>Marshal := (\<lambda>k. Inl ''yaml: unsupported type'')\<rparr>"

definition s_none :: state where
  "s_none = \<lparr>w = newResponse, sessions = Map.empty, exchanged = []\<rparr>"

definition s_login :: state where
  "s_login =
     \<lparr>w = newResponse,
      sessions = [''gangway'' \<mapsto> [''state'' \<mapsto> Str ''S1'']],
      exchanged = []\<rparr>"

definition s_authed :: state where
  "s_authed =
     \<lparr>w = newResponse,
      sessions = [''gangway'' \<mapsto> [''state'' \<mapsto> Str ''S1''],
                  ''gangway_id_token'' \<mapsto> [''id_token'' \<mapsto> Str ''T''],
                  ''gangway_refresh_token'' \<mapsto> [''refresh_token'' \<mapsto> Str ''R'']],
      exchanged = [''C1'']\<rparr>"

definition r_cb :: Request where
  "r_cb = \<lparr>Query = [(''state'', ''S1''), (''code'', ''C1'')]\<rparr>"

definition r_forged :: Request where
  "r_forged = \<lparr>Query = [(''state'', ''S2''), (''code'', ''C9'')]\<rparr>"

definition r_no_state :: Request where
  "r_no_state = \<lparr>Query = [(''code'', ''C9'')]\<rparr>"

definition alice_info :: userInfo where
  "alice_info =
     \<lparr>ClusterName = ''prod'',
      Username = ''alice'',
      KubeCfgUser = ''alice@prod'',
      IDToken = ''T'',
      RefreshToken = ''R'',
      ClientID = ''gangway'',
      ClientSecret = ''secret'',
      IssuerURL = ''https://idp'',
      APIServerURL = ''https://prod:6443'',
      ClusterCA = ''PEM'',
      HTTPPath = ''/gw'',
      Clusters = [dev_cluster],
      Email = []\<rparr>"

section \<open>Properties\<close>

subsection \<open>Auxiliary facts\<close>

lemmas http_defs = fail_def http_Error_def http_Redirect_def Write_def WriteHeader_def
  Header_Set_def Header_Add_def Header_Get_def

lemmas ex_defs = wd_ok_def cfg_ex_def s_login_def s_authed_def r_cb_def alice_info_def
  dev_cluster_def newResponse_def

lemmas session_defs = Session_Get_def Session_Save_def session_values_def stored_def index_def
  Query_Get_def Extra_def

lemma as_string_Some: "as_string v = Some x \<longleftrightarrow> v = Str x"
  by (cases v) auto

text \<open>
  The three ways in which a partition lacks a string under a key: there is no such
  partition, the partition has no such key, or the value is \<open>nil\<close> or of another type.
\<close>

lemma lacks_string_cases:
  "sessions s name = None \<Longrightarrow> as_string (stored s name key) = None"
  "sessions s name = Some vs \<Longrightarrow> vs key = None \<Longrightarrow> as_string (stored s name key) = None"
  "sessions s name = Some vs \<Longrightarrow> vs key = Some Nil \<Longrightarrow> as_string (stored s name key) = None"
  "sessions s name = Some vs \<Longrightarrow> vs key = Some (Other n) \<Longrightarrow> as_string (stored s name key) = None"
  by (simp_all add: stored_def session_values_def index_def)

lemma Session_Get_Inr:
  "Get_err wd name = None \<Longrightarrow> Session_Get wd s name = Inr (session_values s name)"
  by (simp add: Session_Get_def)

lemma fail_frame [simp]:
  "sessions (fail msg code s) = sessions s" "exchanged (fail msg code s) = exchanged s"
  by (simp_all add: fail_def)

lemma fail_status:
  "status (w s) = None \<Longrightarrow> status (w (fail msg code s)) = Some code"
  by (simp add: http_defs)

lemma fail_body:
  "status (w s) = None \<Longrightarrow> body (w (fail msg code s)) = body (w s) @ msg @ [CHR 0x0A]"
  by (simp add: http_defs)

lemma Header_Get_Set:
  assumes "status rw = None"
  shows "Header_Get (Header_Set k v rw) k = Some v"
proof -
  have "map_of [p \<leftarrow> header rw. fst p \<noteq> k] k = None"
    by (auto simp: map_of_eq_None_iff)
  with assms show ?thesis
    by (simp add: Header_Get_def Header_Set_def map_add_def)
qed

lemma redirect_status:
  "status rw = None \<Longrightarrow> status (http_Redirect url code rw) = Some code"
  by (simp add: http_Redirect_def WriteHeader_def Header_Set_def)

lemma redirect_Location:
  "status rw = None \<Longrightarrow> Header_Get (http_Redirect url code rw) ''Location'' = Some url"
  using Header_Get_Set[of rw "''Location''" url]
  by (simp add: http_Redirect_def WriteHeader_def Header_Get_def Header_Set_def)

lemma Write_attachment:
  assumes "status rw = None"
  shows "status (Write d (Header_Add k v rw)) = Some 200"
    and "body (Write d (Header_Add k v rw)) = body rw @ d"
  using assms by (simp_all add: Write_def WriteHeader_def Header_Add_def Let_def)

subsection \<open>The callback: its two outcomes that the properties are about\<close>

lemma callbackHandler_mismatch_frame:
  assumes "Str (Query_Get r ''state'') \<noteq> stored s ''gangway'' ''state''"
  shows "sessions (callbackHandler wd c r s) = sessions s"
    and "exchanged (callbackHandler wd c r s) = exchanged s"
  using assms
  by (auto simp: callbackHandler_def Session_Get_def stored_def Let_def
      split: sum.splits option.splits)

lemma callbackHandler_mismatch_403:
  assumes "Str (Query_Get r ''state'') \<noteq> stored s ''gangway'' ''state''"
    and "Get_err wd ''gangway'' = None" "Get_err wd ''gangway_id_token'' = None"
      "Get_err wd ''gangway_refresh_token'' = None"
  shows "callbackHandler wd c r s = fail (StatusText 403) 403 s"
  using assms by (simp add: callbackHandler_def Session_Get_Inr stored_def Let_def)

text \<open>The success path of the callback, as one equation.\<close>

lemma callbackHandler_success:
  assumes "Get_err wd ''gangway'' = None" "Get_err wd ''gangway_id_token'' = None"
      "Get_err wd ''gangway_refresh_token'' = None"
    and "Str (Query_Get r ''state'') = stored s ''gangway'' ''state''"
    and "Exchange wd (Query_Get r ''code'') = Inr token"
    and "Save_err wd ''gangway'' (session_values s ''gangway'') = None"
    and "Save_err wd ''gangway_id_token''
           ((session_values s ''gangway_id_token'')(''id_token'' \<mapsto> Extra token ''id_token'')) = None"
    and "Save_err wd ''gangway_refresh_token''
           ((session_values s ''gangway_refresh_token'')
              (''refresh_token'' \<mapsto> Str (Token.RefreshToken token))) = None"
  shows "callbackHandler wd c r s =
     s\<lparr>exchanged := exchanged s @ [Query_Get r ''code''],
       sessions := (sessions s)
         (''gangway'' \<mapsto> session_values s ''gangway'',
          ''gangway_id_token'' \<mapsto>
             (session_values s ''gangway_id_token'')(''id_token'' \<mapsto> Extra token ''id_token''),
          ''gangway_refresh_token'' \<mapsto>
             (session_values s ''gangway_refresh_token'')
               (''refresh_token'' \<mapsto> Str (Token.RefreshToken token))),
       w := http_Redirect (config.HTTPPath c @ ''/commandline'') 303 (w s)\<rparr>"
  using assms
  by (simp add: callbackHandler_def Session_Get_Inr Session_Save_def stored_def Let_def)

subsection \<open>The credential assembler: its outcomes\<close>

lemma reset_sessions:
  "sessions (reset_and_redirect s) =
     (sessions s)(''gangway'' := None, ''gangway_id_token'' := None,
                  ''gangway_refresh_token'' := None)"
  by (simp add: reset_and_redirect_def Cleanup_def Let_def)

lemma reset_w: "w (reset_and_redirect s) = http_Redirect ''/'' 307 (w s)"
  by (simp add: reset_and_redirect_def Cleanup_def Let_def)

lemma stored_reset:
  "stored (reset_and_redirect s\<lparr>w := rw\<rparr>) ''gangway_id_token'' key = Nil"
  by (simp add: stored_def session_values_def index_def reset_sessions)

lemma reset_idem:
  "reset_and_redirect (reset_and_redirect s\<lparr>w := w s\<rparr>) = reset_and_redirect s"
  by (simp add: reset_and_redirect_def Cleanup_def Let_def)

lemma generateInfo_unauthenticated:
  assumes "Get_err wd ''gangway_id_token'' = None" "Get_err wd ''gangway_refresh_token'' = None"
    and "as_string (stored s ''gangway_id_token'' ''id_token'') = None
         \<or> as_string (stored s ''gangway_refresh_token'' ''refresh_token'') = None"
  shows "generateInfo wd c s = (None, reset_and_redirect s)"
  using assms
  by (auto simp: generateInfo_def Session_Get_Inr stored_def Let_def split: option.splits)

lemma generateInfo_authenticated:
  assumes "Get_err wd ''gangway_id_token'' = None" "Get_err wd ''gangway_refresh_token'' = None"
    and "stored s ''gangway_id_token'' ''id_token'' = Str idToken"
    and "stored s ''gangway_refresh_token'' ''refresh_token'' = Str refreshToken"
    and "ParseToken wd idToken (config.ClientSecret c) = Inr claims"
    and "index claims (UsernameClaim c) = Str username"
    and "index claims ''iss'' = Str issuerURL"
  shows "generateInfo wd c s =
     (Some \<lparr>ClusterName = config.ClusterName c,
            Username = username,
            KubeCfgUser = username @ ''@'' @ config.ClusterName c,
            IDToken = idToken,
            RefreshToken = refreshToken,
            ClientID = config.ClientID c,
            ClientSecret = config.ClientSecret c,
            IssuerURL = issuerURL,
            APIServerURL = config.APIServerURL c,
            ClusterCA = (case Open wd (ClusterCAPath c) of
                           Inl err \<Rightarrow> [] | Inr fd \<Rightarrow> fst (Read wd fd)),
            HTTPPath = config.HTTPPath c,
            Clusters = config.Clusters c,
            Email = []\<rparr>, s)"
  using assms
  by (simp add: generateInfo_def Session_Get_Inr stored_def ReadAll_def Let_def split: sum.splits)

lemma generateInfo_SomeD:
  assumes "generateInfo wd c s = (Some info, s')"
  shows "s' = s"
    and "\<exists>claims. ParseToken wd (IDToken info) (config.ClientSecret c) = Inr claims
           \<and> index claims (UsernameClaim c) = Str (Username info)"
    and "KubeCfgUser info = Username info @ ''@'' @ config.ClusterName c"
  using assms
  by (auto simp: generateInfo_def Let_def as_string_Some split: sum.splits option.splits)

lemma generateInfo_alice: "generateInfo wd_ok cfg_ex s_authed = (Some alice_info, s_authed)"
  by (simp add: generateInfo_def session_defs ReadAll_def ex_defs)

lemma kubeConfigHandler_Some:
  assumes "generateInfo wd c s = (Some info, s')"
  shows "kubeConfigHandler wd c s =
     (case Marshal wd (fst (generateKubeConfig info)) of
        Inl err \<Rightarrow> fail ''Error creating kubeconfig'' 500 s
      | Inr d \<Rightarrow> s\<lparr>w := Write d (Header_Add ''Content-Disposition'' ''Attachment'' (w s))\<rparr>)"
  using assms generateInfo_SomeD(1)[OF assms]
  by (simp add: kubeConfigHandler_def)

subsection \<open>The login gate\<close>

lemma loginRequired_nil:
  assumes "Get_err wd ''gangway_id_token'' = None"
    and "stored s ''gangway_id_token'' ''id_token'' = Nil"
  shows "loginRequired wd root next_handler s = s\<lparr>w := http_Redirect root 307 (w s)\<rparr>"
  using assms by (simp add: loginRequired_def Session_Get_Inr stored_def)

lemma loginRequired_pass:
  assumes "Get_err wd ''gangway_id_token'' = None"
    and "stored s ''gangway_id_token'' ''id_token'' \<noteq> Nil"
  shows "loginRequired wd root next_handler s = next_handler s"
  using assms by (simp add: loginRequired_def Session_Get_Inr stored_def)

subsection \<open>The kubeconfig generator: the lists it builds\<close>

lemma range_loop_eq:
  "range_loop cfg cs acc = acc @ map (\<lambda>c.
      \<lparr>NamedContext.Name = NamedCluster.Name c,
       NamedContext.Context =
         \<lparr>Context.Cluster = NamedCluster.Name c, Context.AuthInfo = Email cfg\<rparr>\<rparr>) cs"
  by (induction cs arbitrary: acc) (simp_all add: loop_body_def)

text \<open>
  The cluster entries of the document are the configured entries as they are, followed
  by the entry of the primary cluster: the assignment in the loop reaches the loop
  variable only.
\<close>

lemma generateKubeConfig_Clusters:
  "Config.Clusters (fst (generateKubeConfig cfg)) =
     userInfo.Clusters cfg @
       [\<lparr>NamedCluster.Name = ClusterName cfg,
         NamedCluster.Cluster =
           \<lparr>Server = APIServerURL cfg, CertificateAuthorityData = ClusterCA cfg\<rparr>\<rparr>]"
  by (simp add: generateKubeConfig_def Let_def)

lemma generateKubeConfig_Contexts:
  "Contexts (fst (generateKubeConfig cfg)) =
     map (\<lambda>c. \<lparr>NamedContext.Name = NamedCluster.Name c,
               NamedContext.Context =
                 \<lparr>Context.Cluster = NamedCluster.Name c, Context.AuthInfo = Email cfg\<rparr>\<rparr>)
         (Config.Clusters (fst (generateKubeConfig cfg)))"
  by (simp add: generateKubeConfig_def Let_def range_loop_eq)

lemma generateKubeConfig_record:
  "snd (generateKubeConfig cfg) =
     cfg\<lparr>userInfo.Clusters := userInfo.Clusters cfg @
       [\<lparr>NamedCluster.Name = ClusterName cfg,
         NamedCluster.Cluster =
           \<lparr>Server = APIServerURL cfg, CertificateAuthorityData = ClusterCA cfg\<rparr>\<rparr>]\<rparr>"
  by (simp add: generateKubeConfig_def Let_def)

subsection \<open>C1: a callback whose state does not match\<close>

text \<open>
  With a request whose \<open>state\<close> matches nothing and a store that cannot read the
  id-token partition, the answer is 500, not 403: the three partitions are loaded
  before the state is compared.
\<close>

theorem callbackHandler_unreadable_partition_500:
  "Str (Query_Get r_forged ''state'') \<noteq> stored s_login ''gangway'' ''state''
   \<and> status (w (callbackHandler wd_unreadable cfg_ex r_forged s_login)) = Some 500"
  by (simp add: callbackHandler_def session_defs http_defs ex_defs wd_unreadable_def r_forged_def)

text \<open>
  Claim C1, amended. If the \<open>state\<close> query parameter of a callback request is not
  the string stored under \<open>state\<close> in the primary partition (also when nothing is
  stored there), then the handler sends no code to the token endpoint and leaves every
  session partition as it was; and when the three partitions load without error, it
  answers 403 with the body \<open>Forbidden\<close>.
\<close>

theorem callbackHandler_state_mismatch:
  assumes "Str (Query_Get r ''state'') \<noteq> stored s ''gangway'' ''state''"
  shows "sessions (callbackHandler wd c r s) = sessions s
       \<and> exchanged (callbackHandler wd c r s) = exchanged s
       \<and> (Get_err wd ''gangway'' = None \<and> Get_err wd ''gangway_id_token'' = None
            \<and> Get_err wd ''gangway_refresh_token'' = None \<and> status (w s) = None
          \<longrightarrow> status (w (callbackHandler wd c r s)) = Some 403
            \<and> body (w (callbackHandler wd c r s)) = body (w s) @ ''Forbidden'' @ [CHR 0x0A])"
  using callbackHandler_mismatch_frame[OF assms, of wd c]
    callbackHandler_mismatch_403[OF assms, of wd c]
  by (simp add: fail_status fail_body)

text \<open>
  The witness: a request without a \<open>state\<close> parameter, from a browser that holds no
  session at all. The empty string is not \<open>nil\<close>.
\<close>

theorem callbackHandler_state_mismatch_witness:
  "Str (Query_Get r_no_state ''state'') \<noteq> stored s_none ''gangway'' ''state''
   \<and> sessions (callbackHandler wd_ok cfg_ex r_no_state s_none) = sessions s_none
   \<and> exchanged (callbackHandler wd_ok cfg_ex r_no_state s_none) = []
   \<and> status (w (callbackHandler wd_ok cfg_ex r_no_state s_none)) = Some 403"
proof -
  have h: "Str (Query_Get r_no_state ''state'') \<noteq> stored s_none ''gangway'' ''state''"
    by (simp add: session_defs r_no_state_def s_none_def)
  show ?thesis
    using h callbackHandler_state_mismatch[OF h, of wd_ok cfg_ex]
    by (simp add: wd_ok_def s_none_def newResponse_def)
qed

subsection \<open>C2: the CA data of the cluster entries\<close>

text \<open>
  Claim C2 says that every cluster entry of the document carries the CA bytes of the
  user record. For the record that \<open>generateInfo\<close> builds for the example
  configuration, the entry of the additional cluster \<open>dev\<close> keeps the CA data it was
  configured with (none); only the entry of the primary cluster carries \<open>ClusterCA\<close>.
\<close>

theorem generateKubeConfig_additional_cluster_CA:
  "fst (generateInfo wd_ok cfg_ex s_authed) = Some alice_info
   \<and> ClusterCA alice_info = ''PEM''
   \<and> map (\<lambda>c. (NamedCluster.Name c, CertificateAuthorityData (NamedCluster.Cluster c)))
       (Config.Clusters (fst (generateKubeConfig alice_info)))
     = [(''dev'', []), (''prod'', ''PEM'')]"
  by (simp add: generateInfo_alice generateKubeConfig_Clusters alice_info_def dev_cluster_def)

subsection \<open>C3: the auth-info name of the contexts\<close>

text \<open>
  Claim C3 says that there is one context per cluster entry and that every context
  names the document's one auth-info entry. For the same record there are as many
  contexts as cluster entries, but every context names \<open>cfg.Email\<close>, the empty
  string, while the auth-info entry is named \<open>alice@prod\<close>.
\<close>

theorem generateKubeConfig_context_auth_info:
  "fst (generateInfo wd_ok cfg_ex s_authed) = Some alice_info
   \<and> length (Contexts (fst (generateKubeConfig alice_info)))
       = length (Config.Clusters (fst (generateKubeConfig alice_info)))
   \<and> map (\<lambda>c. (NamedContext.Name c, Context.AuthInfo (NamedContext.Context c)))
       (Contexts (fst (generateKubeConfig alice_info)))
     = [(''dev'', []), (''prod'', [])]
   \<and> map NamedAuthInfo.Name (AuthInfos (fst (generateKubeConfig alice_info))) = [''alice@prod'']"
  by (simp add: generateInfo_alice generateKubeConfig_def Let_def range_loop_eq alice_info_def
      dev_cluster_def)

subsection \<open>C4: what kubeconfig generation changes, and its one failure\<close>

text \<open>
  The record that \<open>generateKubeConfig\<close> leaves behind is not the record it was given.
\<close>

theorem generateKubeConfig_changes_record:
  "snd (generateKubeConfig alice_info) \<noteq> alice_info"
proof
  assume "snd (generateKubeConfig alice_info) = alice_info"
  then have "length (userInfo.Clusters (snd (generateKubeConfig alice_info)))
               = length (userInfo.Clusters alice_info)"
    by simp
  then show False
    by (simp add: generateKubeConfig_def Let_def alice_info_def)
qed

text \<open>
  Claim C4, amended. \<open>generateKubeConfig\<close> is a total function of the user record
  alone (no collaborator is among its arguments, and its result is a document, not an
  error). It leaves every field of the record as it was except \<open>Clusters\<close>, to which
  it appends the entry of the primary cluster. The caller, \<open>kubeConfigHandler\<close>,
  answers 500 with the body \<open>Error creating kubeconfig\<close>, whatever the error, when
  serialization fails, and 200 with the serialized document when it succeeds.
\<close>

theorem generateKubeConfig_frame:
  "snd (generateKubeConfig cfg) =
     cfg\<lparr>userInfo.Clusters := userInfo.Clusters cfg @
       [\<lparr>NamedCluster.Name = ClusterName cfg,
         NamedCluster.Cluster =
           \<lparr>Server = APIServerURL cfg, CertificateAuthorityData = ClusterCA cfg\<rparr>\<rparr>]\<rparr>
   \<and> (generateInfo wd c s = (Some info, s') \<and> status (w s) = None \<longrightarrow>
        (case Marshal wd (fst (generateKubeConfig info)) of
           Inl err \<Rightarrow>
             status (w (kubeConfigHandler wd c s)) = Some 500
             \<and> body (w (kubeConfigHandler wd c s))
                 = body (w s) @ ''Error creating kubeconfig'' @ [CHR 0x0A]
         | Inr d \<Rightarrow>
             status (w (kubeConfigHandler wd c s)) = Some 200
             \<and> body (w (kubeConfigHandler wd c s)) = body (w s) @ d))"
proof -
  have "case Marshal wd (fst (generateKubeConfig info)) of
           Inl err \<Rightarrow>
             status (w (kubeConfigHandler wd c s)) = Some 500
             \<and> body (w (kubeConfigHandler wd c s))
                 = body (w s) @ ''Error creating kubeconfig'' @ [CHR 0x0A]
         | Inr d \<Rightarrow>
             status (w (kubeConfigHandler wd c s)) = Some 200
             \<and> body (w (kubeConfigHandler wd c s)) = body (w s) @ d"
    if h: "generateInfo wd c s = (Some info, s')" and st: "status (w s) = None"
    using st
    by (simp add: kubeConfigHandler_Some[OF h] fail_status fail_body Write_attachment
        split: sum.splits)
  then show ?thesis
    using generateKubeConfig_record[of cfg] by blast
qed

theorem generateKubeConfig_frame_witness:
  "generateInfo wd_marshal_fails cfg_ex s_authed = (Some alice_info, s_authed)
   \<and> status (w s_authed) = None
   \<and> status (w (kubeConfigHandler wd_marshal_fails cfg_ex s_authed)) = Some 500
   \<and> body (w (kubeConfigHandler wd_marshal_fails cfg_ex s_authed))
        = ''Error creating kubeconfig'' @ [CHR 0x0A]"
proof -
  have h: "generateInfo wd_marshal_fails cfg_ex s_authed = (Some alice_info, s_authed)"
    by (simp add: generateInfo_def session_defs ReadAll_def ex_defs wd_marshal_fails_def)
  have st: "status (w s_authed) = None"
    by (simp add: s_authed_def newResponse_def)
  have m: "Marshal wd_marshal_fails (fst (generateKubeConfig alice_info))
             = Inl ''yaml: unsupported type''"
    by (simp add: wd_marshal_fails_def)
  have b: "body (w s_authed) = []"
    by (simp add: s_authed_def newResponse_def)
  show ?thesis
    using h st
      generateKubeConfig_frame[of alice_info wd_marshal_fails cfg_ex s_authed alice_info s_authed]
    by (simp add: m b)
qed

subsection \<open>C5: a callback that succeeds\<close>

text \<open>
  With a matching state and a successful exchange the answer is still 500, and the
  token partitions stay empty, when the store fails to save the primary session; and
  it is 500 when the store fails to load a partition.
\<close>

theorem callbackHandler_store_failure_500:
  "Str (Query_Get r_cb ''state'') = stored s_login ''gangway'' ''state''
   \<and> \<not> isl (Exchange wd_save_fails (Query_Get r_cb ''code''))
   \<and> status (w (callbackHandler wd_save_fails cfg_ex r_cb s_login)) = Some 500
   \<and> sessions (callbackHandler wd_save_fails cfg_ex r_cb s_login) ''gangway_id_token'' = None
   \<and> sessions (callbackHandler wd_save_fails cfg_ex r_cb s_login) ''gangway_refresh_token'' = None
   \<and> \<not> isl (Exchange wd_unreadable (Query_Get r_cb ''code''))
   \<and> status (w (callbackHandler wd_unreadable cfg_ex r_cb s_login)) = Some 500"
  by (simp add: callbackHandler_def session_defs http_defs ex_defs wd_save_fails_def
      wd_unreadable_def)

text \<open>
  Claim C5, amended. For every callback request whose state matches, whose code
  exchange succeeds, and for which the session store loads and saves the three
  partitions without error: afterwards the three partitions exist, the primary one
  holds the state, the id-token partition holds the \<open>id_token\<close> extra of the exchanged
  token, the refresh-token partition holds its refresh token, and the response is a
  303 redirect to \<open>HTTPPath\<close> followed by \<open>/commandline\<close>.
\<close>

theorem callbackHandler_success_populates:
  assumes "Get_err wd ''gangway'' = None" "Get_err wd ''gangway_id_token'' = None"
      "Get_err wd ''gangway_refresh_token'' = None"
    and "Str (Query_Get r ''state'') = stored s ''gangway'' ''state''"
    and "Exchange wd (Query_Get r ''code'') = Inr token"
    and "Save_err wd ''gangway'' (session_values s ''gangway'') = None"
    and "Save_err wd ''gangway_id_token''
           ((session_values s ''gangway_id_token'')(''id_token'' \<mapsto> Extra token ''id_token'')) = None"
    and "Save_err wd ''gangway_refresh_token''
           ((session_values s ''gangway_refresh_token'')
              (''refresh_token'' \<mapsto> Str (Token.RefreshToken token))) = None"
    and "status (w s) = None"
  shows "sessions (callbackHandler wd c r s) ''gangway'' \<noteq> None
       \<and> sessions (callbackHandler wd c r s) ''gangway_id_token'' \<noteq> None
       \<and> sessions (callbackHandler wd c r s) ''gangway_refresh_token'' \<noteq> None
       \<and> stored (callbackHandler wd c r s) ''gangway'' ''state'' = Str (Query_Get r ''state'')
       \<and> stored (callbackHandler wd c r s) ''gangway_id_token'' ''id_token'' = Extra token ''id_token''
       \<and> stored (callbackHandler wd c r s) ''gangway_refresh_token'' ''refresh_token''
            = Str (Token.RefreshToken token)
       \<and> status (w (callbackHandler wd c r s)) = Some 303
       \<and> Header_Get (w (callbackHandler wd c r s)) ''Location''
            = Some (config.HTTPPath c @ ''/commandline'')"
proof -
  note eq = callbackHandler_success[OF assms(1-8), of c]
  have "stored (callbackHandler wd c r s) ''gangway'' ''state'' = stored s ''gangway'' ''state''"
    by (simp add: eq stored_def session_values_def)
  then show ?thesis
    using assms(4,9)
    by (simp add: eq stored_def session_values_def index_def redirect_status redirect_Location)
qed

theorem callbackHandler_success_populates_witness:
  "stored (callbackHandler wd_ok cfg_ex r_cb s_login) ''gangway'' ''state'' = Str ''S1''
   \<and> stored (callbackHandler wd_ok cfg_ex r_cb s_login) ''gangway_id_token'' ''id_token'' = Str ''T''
   \<and> stored (callbackHandler wd_ok cfg_ex r_cb s_login) ''gangway_refresh_token'' ''refresh_token''
        = Str ''R''
   \<and> status (w (callbackHandler wd_ok cfg_ex r_cb s_login)) = Some 303
   \<and> Header_Get (w (callbackHandler wd_ok cfg_ex r_cb s_login)) ''Location''
        = Some ''/gw/commandline''"
proof -
  let ?t = "\<lparr>Token.RefreshToken = ''R'', raw = [''id_token'' \<mapsto> Str ''T'']\<rparr>"
  have g: "Get_err wd_ok ''gangway'' = None" "Get_err wd_ok ''gangway_id_token'' = None"
    "Get_err wd_ok ''gangway_refresh_token'' = None"
    by (simp_all add: wd_ok_def)
  have m: "Str (Query_Get r_cb ''state'') = stored s_login ''gangway'' ''state''"
    by (simp add: session_defs ex_defs)
  have e: "Exchange wd_ok (Query_Get r_cb ''code'') = Inr ?t"
    by (simp add: session_defs ex_defs)
  have sv: "Save_err wd_ok ''gangway'' (session_values s_login ''gangway'') = None"
    "Save_err wd_ok ''gangway_id_token''
       ((session_values s_login ''gangway_id_token'')(''id_token'' \<mapsto> Extra ?t ''id_token'')) = None"
    "Save_err wd_ok ''gangway_refresh_token''
       ((session_values s_login ''gangway_refresh_token'')
          (''refresh_token'' \<mapsto> Str (Token.RefreshToken ?t))) = None"
    by (simp_all add: wd_ok_def)
  have st: "status (w s_login) = None"
    by (simp add: ex_defs)
  show ?thesis
    using callbackHandler_success_populates[OF g m e sv st, of cfg_ex]
    by (simp add: session_defs ex_defs)
qed

subsection \<open>C6: one auth-info entry, and the current context\<close>

text \<open>
  Claim C6. For every user record, whatever list of additional clusters it holds, the
  generated document has exactly one auth-info entry, and its current context is the
  name of the primary cluster.
\<close>

theorem generateKubeConfig_one_auth_info:
  "length (AuthInfos (fst (generateKubeConfig (cfg\<lparr>userInfo.Clusters := cs\<rparr>)))) = 1
   \<and> CurrentContext (fst (generateKubeConfig (cfg\<lparr>userInfo.Clusters := cs\<rparr>)))
        = userInfo.ClusterName cfg"
  by (simp add: generateKubeConfig_def Let_def)

subsection \<open>C7: the name of the kubeconfig user\<close>

text \<open>
  Claim C7. For every value of the configured username claim and every cluster name,
  the \<open>kubeCfgUser\<close> that \<open>generateInfo\<close> computes is the username, then \<open>@\<close>, then
  the cluster name: this is what the join of line 354 gives, and it is the
  \<open>KubeCfgUser\<close> of the record that \<open>generateInfo\<close> returns for a session whose ID
  token parses to claims with that username (and an issuer). One separator is put
  between the two parts: the result has exactly one \<open>@\<close> more than the username and
  the cluster name have together.
\<close>

theorem generateInfo_kubeCfgUser:
  assumes "Get_err wd ''gangway_id_token'' = None" "Get_err wd ''gangway_refresh_token'' = None"
    and "stored s ''gangway_id_token'' ''id_token'' = Str idToken"
    and "stored s ''gangway_refresh_token'' ''refresh_token'' = Str refreshToken"
    and "ParseToken wd idToken (config.ClientSecret c) = Inr claims"
    and "index claims (UsernameClaim c) = Str username"
    and "index claims ''iss'' = Str issuerURL"
  shows "Join [username, config.ClusterName c] ''@'' = username @ ''@'' @ config.ClusterName c
       \<and> map_option KubeCfgUser (fst (generateInfo wd c s))
            = Some (username @ ''@'' @ config.ClusterName c)
       \<and> map_option Username (fst (generateInfo wd c s)) = Some username
       \<and> map_option userInfo.ClusterName (fst (generateInfo wd c s)) = Some (config.ClusterName c)
       \<and> count_list (username @ ''@'' @ config.ClusterName c) CHR ''@''
            = count_list username CHR ''@'' + 1 + count_list (config.ClusterName c) CHR ''@''"
  by (simp add: generateInfo_authenticated[OF assms])

theorem generateInfo_kubeCfgUser_witness:
  "map_option KubeCfgUser (fst (generateInfo wd_ok cfg_ex s_authed)) = Some ''alice@prod''
   \<and> count_list ''alice@prod'' CHR ''@'' = 1"
proof -
  let ?claims = "[''sub'' \<mapsto> Str ''alice'', ''iss'' \<mapsto> Str ''https://idp'']"
  have g: "Get_err wd_ok ''gangway_id_token'' = None" "Get_err wd_ok ''gangway_refresh_token'' = None"
    by (simp_all add: wd_ok_def)
  have t: "stored s_authed ''gangway_id_token'' ''id_token'' = Str ''T''"
    "stored s_authed ''gangway_refresh_token'' ''refresh_token'' = Str ''R''"
    by (simp_all add: session_defs ex_defs)
  have p: "ParseToken wd_ok ''T'' (config.ClientSecret cfg_ex) = Inr ?claims"
    by (simp add: wd_ok_def cfg_ex_def)
  have cl: "index ?claims (UsernameClaim cfg_ex) = Str ''alice''"
    "index ?claims ''iss'' = Str ''https://idp''"
    by (simp_all add: index_def cfg_ex_def)
  show ?thesis
    using generateInfo_kubeCfgUser[OF g t p cl]
    by (simp add: cfg_ex_def)
qed

subsection \<open>C8: a session without its tokens\<close>

text \<open>
  Claim C8. Whenever \<open>generateInfo\<close>, having loaded the two token partitions, finds
  no string under \<open>id_token\<close> in the id-token partition, or none under
  \<open>refresh_token\<close> in the refresh-token partition (see \<open>lacks_string_cases\<close> for
  the ways in which that happens), it returns no record, all three partitions are gone
  afterwards, and the response is a 307 redirect to \<open>/\<close>. Calling it again on the
  cleared sessions, with a response as fresh as the first, gives the same result again:
  the second clearing changes nothing and is no error.
\<close>

theorem generateInfo_clears_and_redirects:
  assumes "Get_err wd ''gangway_id_token'' = None" "Get_err wd ''gangway_refresh_token'' = None"
    and "as_string (stored s ''gangway_id_token'' ''id_token'') = None
         \<or> as_string (stored s ''gangway_refresh_token'' ''refresh_token'') = None"
    and "status (w s) = None"
  shows "fst (generateInfo wd c s) = None
       \<and> sessions (snd (generateInfo wd c s)) ''gangway'' = None
       \<and> sessions (snd (generateInfo wd c s)) ''gangway_id_token'' = None
       \<and> sessions (snd (generateInfo wd c s)) ''gangway_refresh_token'' = None
       \<and> status (w (snd (generateInfo wd c s))) = Some 307
       \<and> Header_Get (w (snd (generateInfo wd c s))) ''Location'' = Some ''/''
       \<and> generateInfo wd c (snd (generateInfo wd c s)\<lparr>w := w s\<rparr>) = generateInfo wd c s"
proof -
  note eq = generateInfo_unauthenticated[OF assms(1-3), of c]
  have again: "generateInfo wd c (reset_and_redirect s\<lparr>w := w s\<rparr>)
                 = (None, reset_and_redirect (reset_and_redirect s\<lparr>w := w s\<rparr>))"
    by (rule generateInfo_unauthenticated[OF assms(1,2)]) (simp add: stored_reset)
  show ?thesis
    using assms(4)
    by (simp add: eq again reset_idem reset_sessions reset_w redirect_status redirect_Location)
qed

text \<open>
  The witness: a browser that has been through \<open>/login\<close> only, so that its token
  partitions were never created.
\<close>

theorem generateInfo_clears_and_redirects_witness:
  "fst (generateInfo wd_ok cfg_ex s_login) = None
   \<and> sessions (snd (generateInfo wd_ok cfg_ex s_login)) ''gangway'' = None
   \<and> status (w (snd (generateInfo wd_ok cfg_ex s_login))) = Some 307
   \<and> Header_Get (w (snd (generateInfo wd_ok cfg_ex s_login))) ''Location'' = Some ''/''
   \<and> generateInfo wd_ok cfg_ex (snd (generateInfo wd_ok cfg_ex s_login)\<lparr>w := w s_login\<rparr>)
        = generateInfo wd_ok cfg_ex s_login"
proof -
  have g: "Get_err wd_ok ''gangway_id_token'' = None" "Get_err wd_ok ''gangway_refresh_token'' = None"
    by (simp_all add: wd_ok_def)
  have u: "as_string (stored s_login ''gangway_id_token'' ''id_token'') = None
         \<or> as_string (stored s_login ''gangway_refresh_token'' ''refresh_token'') = None"
    by (simp add: session_defs ex_defs)
  have st: "status (w s_login) = None"
    by (simp add: ex_defs)
  show ?thesis
    using generateInfo_clears_and_redirects[OF g u st, of cfg_ex] by simp
qed

subsection \<open>C9: a CA file that cannot be opened or read\<close>

text \<open>
  When the file opens and the read stops with an error after some bytes, the record
  holds those bytes: its CA field is not empty.
\<close>

theorem generateInfo_partial_read_CA:
  "Open wd_ca_partial (ClusterCAPath cfg_ex) = Inr 3
   \<and> snd (Read wd_ca_partial 3) = Some ''input/output error''
   \<and> map_option ClusterCA (fst (generateInfo wd_ca_partial cfg_ex s_authed)) = Some ''-----BEGIN''"
  by (simp add: generateInfo_def session_defs ReadAll_def ex_defs wd_ca_partial_def)

text \<open>
  Claim C9, amended. For every authenticated request (both token partitions load and
  hold strings, the ID token parses, its username and issuer claims are strings),
  whether or not the CA file can be opened or read, \<open>generateInfo\<close> returns the fully
  built record. Its CA bytes are empty when the file cannot be opened, and otherwise
  the bytes that the read returned, also when the read ended in an error. The entry of
  the primary cluster in the document carries these bytes, and when serialization
  succeeds \<open>kubeConfigHandler\<close> answers 200 with the serialized document.
\<close>

theorem generateInfo_CA_failure_nonfatal:
  assumes "Get_err wd ''gangway_id_token'' = None" "Get_err wd ''gangway_refresh_token'' = None"
    and "stored s ''gangway_id_token'' ''id_token'' = Str idToken"
    and "stored s ''gangway_refresh_token'' ''refresh_token'' = Str refreshToken"
    and "ParseToken wd idToken (config.ClientSecret c) = Inr claims"
    and "index claims (UsernameClaim c) = Str username"
    and "index claims ''iss'' = Str issuerURL"
    and "status (w s) = None"
  shows "let info = \<lparr>ClusterName = config.ClusterName c,
                     Username = username,
                     KubeCfgUser = username @ ''@'' @ config.ClusterName c,
                     IDToken = idToken,
                     RefreshToken = refreshToken,
                     ClientID = config.ClientID c,
                     ClientSecret = config.ClientSecret c,
                     IssuerURL = issuerURL,
                     APIServerURL = config.APIServerURL c,
                     ClusterCA = (case Open wd (ClusterCAPath c) of
                                    Inl err \<Rightarrow> [] | Inr fd \<Rightarrow> fst (Read wd fd)),
                     HTTPPath = config.HTTPPath c,
                     Clusters = config.Clusters c,
                     Email = []\<rparr>
         in generateInfo wd c s = (Some info, s)
          \<and> CertificateAuthorityData
               (NamedCluster.Cluster (last (Config.Clusters (fst (generateKubeConfig info)))))
              = ClusterCA info
          \<and> (\<forall>d. Marshal wd (fst (generateKubeConfig info)) = Inr d \<longrightarrow>
                status (w (kubeConfigHandler wd c s)) = Some 200
                \<and> body (w (kubeConfigHandler wd c s)) = body (w s) @ d
                \<and> sessions (kubeConfigHandler wd c s) = sessions s)"
proof -
  let ?info = "\<lparr>ClusterName = config.ClusterName c,
            Username = username,
            KubeCfgUser = username @ ''@'' @ config.ClusterName c,
            IDToken = idToken,
            RefreshToken = refreshToken,
            ClientID = config.ClientID c,
            ClientSecret = config.ClientSecret c,
            IssuerURL = issuerURL,
            APIServerURL = config.APIServerURL c,
            ClusterCA = (case Open wd (ClusterCAPath c) of
                           Inl err \<Rightarrow> [] | Inr fd \<Rightarrow> fst (Read wd fd)),
            HTTPPath = config.HTTPPath c,
            Clusters = config.Clusters c,
            Email = []\<rparr>"
  have h: "generateInfo wd c s = (Some ?info, s)"
    by (rule generateInfo_authenticated[OF assms(1-7)])
  have ca: "CertificateAuthorityData
            (NamedCluster.Cluster (last (Config.Clusters (fst (generateKubeConfig ?info)))))
           = ClusterCA ?info"
    by (simp add: generateKubeConfig_Clusters)
  have k: "status (w (kubeConfigHandler wd c s)) = Some 200
             \<and> body (w (kubeConfigHandler wd c s)) = body (w s) @ d
             \<and> sessions (kubeConfigHandler wd c s) = sessions s"
    if "Marshal wd (fst (generateKubeConfig ?info)) = Inr d" for d
    using that assms(8) by (simp add: kubeConfigHandler_Some[OF h] Write_attachment)
  show ?thesis
    unfolding Let_def using h ca k by blast
qed

text \<open>The witness: the CA file is missing.\<close>

theorem generateInfo_CA_failure_nonfatal_witness:
  "isl (Open wd_ca_missing (ClusterCAPath cfg_ex))
   \<and> generateInfo wd_ca_missing cfg_ex s_authed = (Some (alice_info\<lparr>ClusterCA := []\<rparr>), s_authed)
   \<and> status (w (kubeConfigHandler wd_ca_missing cfg_ex s_authed)) = Some 200
   \<and> body (w (kubeConfigHandler wd_ca_missing cfg_ex s_authed)) = ''kind: Config''"
proof -
  let ?claims = "[''sub'' \<mapsto> Str ''alice'', ''iss'' \<mapsto> Str ''https://idp'']"
  have g: "Get_err wd_ca_missing ''gangway_id_token'' = None"
    "Get_err wd_ca_missing ''gangway_refresh_token'' = None"
    by (simp_all add: wd_ca_missing_def wd_ok_def)
  have t: "stored s_authed ''gangway_id_token'' ''id_token'' = Str ''T''"
    "stored s_authed ''gangway_refresh_token'' ''refresh_token'' = Str ''R''"
    by (simp_all add: session_defs ex_defs)
  have p: "ParseToken wd_ca_missing ''T'' (config.ClientSecret cfg_ex) = Inr ?claims"
    by (simp add: wd_ca_missing_def wd_ok_def cfg_ex_def)
  have cl: "index ?claims (UsernameClaim cfg_ex) = Str ''alice''"
    "index ?claims ''iss'' = Str ''https://idp''"
    by (simp_all add: index_def cfg_ex_def)
  have st: "status (w s_authed) = None" and b: "body (w s_authed) = []"
    by (simp_all add: s_authed_def newResponse_def)
  have m: "Marshal wd_ca_missing k = Inr ''kind: Config''" for k
    by (simp add: wd_ca_missing_def wd_ok_def)
  have o': "Open wd_ca_missing path = Inl ''no such file''" for path
    by (simp add: wd_ca_missing_def)
  show ?thesis
    using generateInfo_CA_failure_nonfatal[OF g t p cl st]
    by (simp add: Let_def o' m b alice_info_def cfg_ex_def)
qed

subsection \<open>C10: an exchange without an ID token\<close>

text \<open>
  Two inputs at which the claim as it stands fails. An exchange that returns no ID
  token, with a matching state, where the store fails to save the id-token session: the
  callback answers 500, not 303. And an exchange that returns no ID token where the
  callback does end in 303: a request to a page behind \<open>loginRequired\<close> is then
  answered by \<open>loginRequired\<close> itself, with a redirect to the root path prefix, and
  the sessions stay as the callback left them; the credential assembler is not reached.
\<close>

theorem callbackHandler_no_id_token_counterexample:
  "Str (Query_Get r_cb ''state'') = stored s_login ''gangway'' ''state''
   \<and> \<not> isl (Exchange wd_no_id_token_save_fails (Query_Get r_cb ''code''))
   \<and> Extra (projr (Exchange wd_no_id_token_save_fails (Query_Get r_cb ''code''))) ''id_token'' = Nil
   \<and> status (w (callbackHandler wd_no_id_token_save_fails cfg_ex r_cb s_login)) = Some 500
   \<and> \<not> isl (Exchange wd_no_id_token (Query_Get r_cb ''code''))
   \<and> Extra (projr (Exchange wd_no_id_token (Query_Get r_cb ''code''))) ''id_token'' = Nil
   \<and> status (w (callbackHandler wd_no_id_token cfg_ex r_cb s_login)) = Some 303
   \<and> status (w (loginRequired wd_no_id_token ''/gw'' (kubeConfigHandler wd_no_id_token cfg_ex)
        (callbackHandler wd_no_id_token cfg_ex r_cb s_login\<lparr>w := newResponse\<rparr>))) = Some 307
   \<and> Header_Get (w (loginRequired wd_no_id_token ''/gw'' (kubeConfigHandler wd_no_id_token cfg_ex)
        (callbackHandler wd_no_id_token cfg_ex r_cb s_login\<lparr>w := newResponse\<rparr>))) ''Location''
        = Some ''/gw''
   \<and> stored (loginRequired wd_no_id_token ''/gw'' (kubeConfigHandler wd_no_id_token cfg_ex)
        (callbackHandler wd_no_id_token cfg_ex r_cb s_login\<lparr>w := newResponse\<rparr>))
        ''gangway'' ''state'' = Str ''S1''
   \<and> sessions (loginRequired wd_no_id_token ''/gw'' (kubeConfigHandler wd_no_id_token cfg_ex)
        (callbackHandler wd_no_id_token cfg_ex r_cb s_login\<lparr>w := newResponse\<rparr>))
        ''gangway_id_token'' \<noteq> None"
  by (simp add: loginRequired_def callbackHandler_def session_defs http_defs ex_defs
      wd_no_id_token_def wd_no_id_token_save_fails_def)

text \<open>
  Claim C10, amended. The callback never checks that the exchanged token contains an ID
  token: it stores the \<open>id_token\<close> extra of the token in the id-token partition as it
  is, string or not, present or not. So a callback whose exchange returns no ID token,
  and which succeeds otherwise (the state matches, the store loads and saves the three
  partitions), still ends in the 303 redirect. Afterwards, a stored \<open>nil\<close> (no ID
  token) is caught by \<open>loginRequired\<close>, which redirects to the root path prefix
  without calling the page handler and without clearing anything; a stored value that
  is neither \<open>nil\<close> nor a string passes \<open>loginRequired\<close>. The credential assembler,
  whenever it is called on these sessions with a value that is not a string, treats the
  session as unauthenticated: no record, the three partitions cleared, a 307 redirect
  to \<open>/\<close>.
\<close>

theorem callbackHandler_stores_unchecked_id_token:
  assumes "Get_err wd ''gangway'' = None" "Get_err wd ''gangway_id_token'' = None"
      "Get_err wd ''gangway_refresh_token'' = None"
    and "Str (Query_Get r ''state'') = stored s ''gangway'' ''state''"
    and "Exchange wd (Query_Get r ''code'') = Inr token"
    and "Save_err wd ''gangway'' (session_values s ''gangway'') = None"
    and "Save_err wd ''gangway_id_token''
           ((session_values s ''gangway_id_token'')(''id_token'' \<mapsto> Extra token ''id_token'')) = None"
    and "Save_err wd ''gangway_refresh_token''
           ((session_values s ''gangway_refresh_token'')
              (''refresh_token'' \<mapsto> Str (Token.RefreshToken token))) = None"
    and "status (w s) = None"
  shows "status (w (callbackHandler wd c r s)) = Some 303
       \<and> sessions (callbackHandler wd c r s) ''gangway_id_token''
            = Some ((session_values s ''gangway_id_token'')(''id_token'' \<mapsto> Extra token ''id_token''))
       \<and> stored (callbackHandler wd c r s) ''gangway_id_token'' ''id_token'' = Extra token ''id_token''
       \<and> (Extra token ''id_token'' = Nil \<longrightarrow>
            loginRequired wd root next_handler (callbackHandler wd c r s\<lparr>w := newResponse\<rparr>)
              = callbackHandler wd c r s\<lparr>w := http_Redirect root 307 newResponse\<rparr>)
       \<and> (Extra token ''id_token'' \<noteq> Nil \<longrightarrow>
            loginRequired wd root next_handler (callbackHandler wd c r s\<lparr>w := newResponse\<rparr>)
              = next_handler (callbackHandler wd c r s\<lparr>w := newResponse\<rparr>))
       \<and> (as_string (Extra token ''id_token'') = None \<longrightarrow>
            generateInfo wd c (callbackHandler wd c r s\<lparr>w := newResponse\<rparr>)
              = (None, reset_and_redirect (callbackHandler wd c r s\<lparr>w := newResponse\<rparr>))
            \<and> sessions (snd (generateInfo wd c (callbackHandler wd c r s\<lparr>w := newResponse\<rparr>)))
                 ''gangway'' = None
            \<and> sessions (snd (generateInfo wd c (callbackHandler wd c r s\<lparr>w := newResponse\<rparr>)))
                 ''gangway_id_token'' = None
            \<and> sessions (snd (generateInfo wd c (callbackHandler wd c r s\<lparr>w := newResponse\<rparr>)))
                 ''gangway_refresh_token'' = None
            \<and> status (w (snd (generateInfo wd c (callbackHandler wd c r s\<lparr>w := newResponse\<rparr>))))
                 = Some 307
            \<and> Header_Get (w (snd (generateInfo wd c (callbackHandler wd c r s\<lparr>w := newResponse\<rparr>))))
                 ''Location'' = Some ''/'')"
proof -
  let ?s' = "callbackHandler wd c r s\<lparr>w := newResponse\<rparr>"
  note eq = callbackHandler_success[OF assms(1-8), of c]
  have a: "status (w (callbackHandler wd c r s)) = Some 303"
    using assms(9) by (simp add: eq redirect_status)
  have b: "sessions (callbackHandler wd c r s) ''gangway_id_token''
            = Some ((session_values s ''gangway_id_token'')(''id_token'' \<mapsto> Extra token ''id_token''))"
    by (simp add: eq)
  have b': "stored (callbackHandler wd c r s) ''gangway_id_token'' ''id_token'' = Extra token ''id_token''"
    by (simp add: stored_def session_values_def index_def b)
  have st: "stored ?s' ''gangway_id_token'' ''id_token'' = Extra token ''id_token''"
    by (simp add: stored_def session_values_def index_def b)
  have g1: "loginRequired wd root next_handler ?s' = ?s'\<lparr>w := http_Redirect root 307 (w ?s')\<rparr>"
    if "Extra token ''id_token'' = Nil"
    by (rule loginRequired_nil[OF assms(2)]) (simp add: st that)
  have g2: "loginRequired wd root next_handler ?s' = next_handler ?s'"
    if "Extra token ''id_token'' \<noteq> Nil"
    by (rule loginRequired_pass[OF assms(2)]) (simp add: st that)
  have c: "generateInfo wd c ?s' = (None, reset_and_redirect ?s')"
    if "as_string (Extra token ''id_token'') = None"
    by (rule generateInfo_unauthenticated[OF assms(2,3)]) (simp add: st that)
  have fresh: "status newResponse = None"
    by (simp add: newResponse_def)
  show ?thesis
    using a b b' g1 g2 c
    by (simp add: reset_sessions reset_w redirect_status[OF fresh] redirect_Location[OF fresh])
qed

text \<open>
  The witness, at two answers of the provider: one without \<open>id_token\<close>, one with a
  number there.
\<close>

theorem callbackHandler_stores_unchecked_id_token_witness:
  "status (w (callbackHandler wd_no_id_token cfg_ex r_cb s_login)) = Some 303
   \<and> sessions (callbackHandler wd_no_id_token cfg_ex r_cb s_login) ''gangway_id_token''
        = Some [''id_token'' \<mapsto> Nil]
   \<and> loginRequired wd_no_id_token ''/gw'' (kubeConfigHandler wd_no_id_token cfg_ex)
        (callbackHandler wd_no_id_token cfg_ex r_cb s_login\<lparr>w := newResponse\<rparr>)
        = callbackHandler wd_no_id_token cfg_ex r_cb s_login
            \<lparr>w := http_Redirect ''/gw'' 307 newResponse\<rparr>
   \<and> fst (generateInfo wd_no_id_token cfg_ex
             (callbackHandler wd_no_id_token cfg_ex r_cb s_login\<lparr>w := newResponse\<rparr>)) = None
   \<and> status (w (callbackHandler wd_number_id_token cfg_ex r_cb s_login)) = Some 303
   \<and> sessions (callbackHandler wd_number_id_token cfg_ex r_cb s_login) ''gangway_id_token''
        = Some [''id_token'' \<mapsto> Other 7]
   \<and> loginRequired wd_number_id_token ''/gw'' (kubeConfigHandler wd_number_id_token cfg_ex)
        (callbackHandler wd_number_id_token cfg_ex r_cb s_login\<lparr>w := newResponse\<rparr>)
        = kubeConfigHandler wd_number_id_token cfg_ex
            (callbackHandler wd_number_id_token cfg_ex r_cb s_login\<lparr>w := newResponse\<rparr>)
   \<and> fst (generateInfo wd_number_id_token cfg_ex
             (callbackHandler wd_number_id_token cfg_ex r_cb s_login\<lparr>w := newResponse\<rparr>)) = None
   \<and> status (w (snd (generateInfo wd_number_id_token cfg_ex
             (callbackHandler wd_number_id_token cfg_ex r_cb s_login\<lparr>w := newResponse\<rparr>))))
        = Some 307"
proof -
  let ?t = "\<lparr>Token.RefreshToken = ''R'', raw = Map.empty\<rparr>"
  let ?u = "\<lparr>Token.RefreshToken = ''R'', raw = [''id_token'' \<mapsto> Other 7]\<rparr>"
  have m: "Str (Query_Get r_cb ''state'') = stored s_login ''gangway'' ''state''"
    by (simp add: session_defs ex_defs)
  have st: "status (w s_login) = None"
    by (simp add: ex_defs)
  have g: "Get_err wd_no_id_token ''gangway'' = None"
    "Get_err wd_no_id_token ''gangway_id_token'' = None"
    "Get_err wd_no_id_token ''gangway_refresh_token'' = None"
    by (simp_all add: wd_no_id_token_def wd_ok_def)
  have e: "Exchange wd_no_id_token (Query_Get r_cb ''code'') = Inr ?t"
    by (simp add: wd_no_id_token_def wd_ok_def)
  have sv: "Save_err wd_no_id_token ''gangway'' (session_values s_login ''gangway'') = None"
    "Save_err wd_no_id_token ''gangway_id_token''
       ((session_values s_login ''gangway_id_token'')(''id_token'' \<mapsto> Extra ?t ''id_token'')) = None"
    "Save_err wd_no_id_token ''gangway_refresh_token''
       ((session_values s_login ''gangway_refresh_token'')
          (''refresh_token'' \<mapsto> Str (Token.RefreshToken ?t))) = None"
    by (simp_all add: wd_no_id_token_def wd_ok_def)
  have n: "Extra ?t ''id_token'' = Nil"
    by (simp add: Extra_def index_def)
  have v: "(session_values s_login ''gangway_id_token'')(''id_token'' \<mapsto> Nil)
             = [''id_token'' \<mapsto> Nil]"
    by (simp add: session_values_def s_login_def)
  have first: "status (w (callbackHandler wd_no_id_token cfg_ex r_cb s_login)) = Some 303
   \<and> sessions (callbackHandler wd_no_id_token cfg_ex r_cb s_login) ''gangway_id_token''
        = Some [''id_token'' \<mapsto> Nil]
   \<and> loginRequired wd_no_id_token ''/gw'' (kubeConfigHandler wd_no_id_token cfg_ex)
        (callbackHandler wd_no_id_token cfg_ex r_cb s_login\<lparr>w := newResponse\<rparr>)
        = callbackHandler wd_no_id_token cfg_ex r_cb s_login
            \<lparr>w := http_Redirect ''/gw'' 307 newResponse\<rparr>
   \<and> fst (generateInfo wd_no_id_token cfg_ex
             (callbackHandler wd_no_id_token cfg_ex r_cb s_login\<lparr>w := newResponse\<rparr>)) = None"
    using callbackHandler_stores_unchecked_id_token[OF g m e sv st,
        of cfg_ex "''/gw''" "kubeConfigHandler wd_no_id_token cfg_ex"]
    unfolding n v by (metis as_string.simps(2) fst_conv)
  have g': "Get_err wd_number_id_token ''gangway'' = None"
    "Get_err wd_number_id_token ''gangway_id_token'' = None"
    "Get_err wd_number_id_token ''gangway_refresh_token'' = None"
    by (simp_all add: wd_number_id_token_def wd_ok_def)
  have e': "Exchange wd_number_id_token (Query_Get r_cb ''code'') = Inr ?u"
    by (simp add: wd_number_id_token_def wd_ok_def)
  have sv': "Save_err wd_number_id_token ''gangway'' (session_values s_login ''gangway'') = None"
    "Save_err wd_number_id_token ''gangway_id_token''
       ((session_values s_login ''gangway_id_token'')(''id_token'' \<mapsto> Extra ?u ''id_token'')) = None"
    "Save_err wd_number_id_token ''gangway_refresh_token''
       ((session_values s_login ''gangway_refresh_token'')
          (''refresh_token'' \<mapsto> Str (Token.RefreshToken ?u))) = None"
    by (simp_all add: wd_number_id_token_def wd_ok_def)
  have n': "Extra ?u ''id_token'' = Other 7"
    by (simp add: Extra_def index_def)
  have v': "(session_values s_login ''gangway_id_token'')(''id_token'' \<mapsto> Other 7)
             = [''id_token'' \<mapsto> Other 7]"
    by (simp add: session_values_def s_login_def)
  have second: "status (w (callbackHandler wd_number_id_token cfg_ex r_cb s_login)) = Some 303
   \<and> sessions (callbackHandler wd_number_id_token cfg_ex r_cb s_login) ''gangway_id_token''
        = Some [''id_token'' \<mapsto> Other 7]
   \<and> loginRequired wd_number_id_token ''/gw'' (kubeConfigHandler wd_number_id_token cfg_ex)
        (callbackHandler wd_number_id_token cfg_ex r_cb s_login\<lparr>w := newResponse\<rparr>)
        = kubeConfigHandler wd_number_id_token cfg_ex
            (callbackHandler wd_number_id_token cfg_ex r_cb s_login\<lparr>w := newResponse\<rparr>)
   \<and> fst (generateInfo wd_number_id_token cfg_ex
             (callbackHandler wd_number_id_token cfg_ex r_cb s_login\<lparr>w := newResponse\<rparr>)) = None
   \<and> status (w (snd (generateInfo wd_number_id_token cfg_ex
             (callbackHandler wd_number_id_token cfg_ex r_cb s_login\<lparr>w := newResponse\<rparr>))))
        = Some 307"
    using callbackHandler_stores_unchecked_id_token[OF g' m e' sv' st,
        of cfg_ex "''/gw''" "kubeConfigHandler wd_number_id_token cfg_ex"]
    unfolding n' v' by (metis as_string.simps(3) dyn.distinct(3) fst_conv)
  show ?thesis
    using first second by blast
qed

end
